theory Spec2Isabelle
  imports Main
begin

section \<open>Image import from an archive stream: the OCI and the legacy Docker importer\<close>

text \<open>
  The development embeds the two importers of the repository,
  \<^verbatim>\<open>imageformats/oci/importer.go\<close> and \<^verbatim>\<open>contrib/docker1/importer.go\<close>.
  An archive is a list of tar records, the content store is a map from digests to
  bytes, every error return of the Go code is a value of the type \<open>error\<close>, and the
  loops over records and over manifest entries are recursive functions.
\<close>

subsection \<open>Strings and bytes\<close>

type_synonym bytes = string

text \<open>\<^verbatim>\<open>strings.Split(s, sep)\<close> for a one-byte separator: the result is never empty.\<close>

fun strings_Split :: "string \<Rightarrow> char \<Rightarrow> string list" where
  "strings_Split [] sep = [[]]"
| "strings_Split (c # cs) sep =
     (if c = sep then [] # strings_Split cs sep
      else (case strings_Split cs sep of
              [] \<Rightarrow> [[c]]
            | w # ws \<Rightarrow> (c # w) # ws))"

definition strings_HasPrefix :: "string \<Rightarrow> string \<Rightarrow> bool" where
  "strings_HasPrefix s p = (take (length p) s = p)"

definition strings_HasSuffix :: "string \<Rightarrow> string \<Rightarrow> bool" where
  "strings_HasSuffix s p =
     (length p \<le> length s \<and> drop (length s - length p) s = p)"

text \<open>\<^verbatim>\<open>strconv.Itoa\<close> on a slice index, which is never negative.\<close>

definition digit_char :: "nat \<Rightarrow> char" where
  "digit_char d = ''0123456789'' ! d"

fun strconv_Itoa :: "nat \<Rightarrow> string" where
  "strconv_Itoa n =
     (if n < 10 then [digit_char n]
      else strconv_Itoa (n div 10) @ [digit_char (n mod 10)])"

subsection \<open>Errors\<close>

text \<open>
  The two sentinel errors of package \<^verbatim>\<open>errdefs\<close> that the importers wrap, the
  messages the importers format themselves, and the failures of the collaborators
  (archive reader, JSON decoder, filter parser, content store).
\<close>

datatype errdef = ErrAmbiguous | ErrNotFound

datatype message =
    NoDescriptorFound string          \<comment> \<open>\<^verbatim>\<open>no descriptor found for filter %q\<close>\<close>
  | NoManifestFound string            \<comment> \<open>\<^verbatim>\<open>no manifest found for filter %q\<close>\<close>
  | ImageConfigNotFound string string \<comment> \<open>\<^verbatim>\<open>image config not %q found for filter %q\<close>\<close>
  | LayerNotFound string              \<comment> \<open>\<^verbatim>\<open>layer %q not found\<close>\<close>
  | ParentNotSupported string         \<comment> \<open>\<^verbatim>\<open>manifest.Parent (%q) is not supported\<close>\<close>
  | UnexpectedName string             \<comment> \<open>\<^verbatim>\<open>unexpected name: %q\<close>\<close>
  | UnsupportedAlgorithm string       \<comment> \<open>\<^verbatim>\<open>unsupported algorithm: %s\<close>\<close>
  | FilterMatched string nat          \<comment> \<open>\<^verbatim>\<open>filter %q matched %d items\<close>\<close>
  | FilterDidNotMatch string          \<comment> \<open>\<^verbatim>\<open>filter %q did not match any item\<close>\<close>

datatype error =
    Errorf message                    \<comment> \<open>\<^verbatim>\<open>errors.Errorf\<close>: a plain error\<close>
  | Wrapf errdef message              \<comment> \<open>\<^verbatim>\<open>errors.Wrapf(errdefs.X, ...)\<close>\<close>
  | MalformedArchive                  \<comment> \<open>the archive reader fails\<close>
  | MalformedMetadata                 \<comment> \<open>\<^verbatim>\<open>json.Unmarshal\<close> fails\<close>
  | InvalidExpression                 \<comment> \<open>the filter does not parse\<close>
  | TruncatedInput
  | OversizedInput
  | DigestMismatch string string      \<comment> \<open>computed digest, expected digest\<close>

text \<open>
  What a caller tests with \<^verbatim>\<open>errors.Cause(err) == errdefs.X\<close>: only an error made by
  wrapping the sentinel has it as its cause.
\<close>

fun has_cause :: "errdef \<Rightarrow> error \<Rightarrow> bool" where
  "has_cause c (Wrapf c' _) = (c = c')"
| "has_cause c _ = False"

subsection \<open>The filter expression evaluator\<close>

text \<open>
  Modelled from the spec: package \<^verbatim>\<open>filters\<close> (\<^verbatim>\<open>filters.Parse\<close>, \<^verbatim>\<open>Filter.Match\<close>,
  \<^verbatim>\<open>filters.AdapterFunc\<close>) is not among the sources. The specification gives the
  grammar as a comma-separated conjunction of \<^verbatim>\<open>field==value\<close> clauses, the empty
  expression being the predicate that matches everything; a clause matches iff the
  candidate reports the field as present and its value equals the right-hand side
  exactly. An adaptor is the function the importers pass to \<^verbatim>\<open>filters.AdapterFunc\<close>:
  from a field path to a value and a presence flag.
\<close>

type_synonym adaptor = "string list \<Rightarrow> string \<times> bool"

type_synonym selector = "string list \<times> string"

type_synonym filter = "selector list"

fun split_eqeq :: "string \<Rightarrow> (string \<times> string) option" where
  "split_eqeq [] = None"
| "split_eqeq [c] = None"
| "split_eqeq (a # b # cs) =
     (if a = CHR ''='' \<and> b = CHR ''='' then Some ([], cs)
      else (case split_eqeq (b # cs) of
              None \<Rightarrow> None
            | Some (f, v) \<Rightarrow> Some (a # f, v)))"

definition parse_clause :: "string \<Rightarrow> error + selector" where
  "parse_clause c =
     (case split_eqeq c of
        None \<Rightarrow> Inl InvalidExpression
      | Some (f, v) \<Rightarrow> if f = [] then Inl InvalidExpression else Inr ([f], v))"

fun parse_clauses :: "string list \<Rightarrow> error + filter" where
  "parse_clauses [] = Inr []"
| "parse_clauses (c # cs) =
     (case parse_clause c of
        Inl e \<Rightarrow> Inl e
      | Inr sel \<Rightarrow> (case parse_clauses cs of
                     Inl e \<Rightarrow> Inl e
                   | Inr sels \<Rightarrow> Inr (sel # sels)))"

definition filters_Parse :: "string \<Rightarrow> error + filter" where
  "filters_Parse s =
     (if s = [] then Inr [] else parse_clauses (strings_Split s (CHR '','')))"

definition selector_Match :: "selector \<Rightarrow> adaptor \<Rightarrow> bool" where
  "selector_Match sel a =
     (case a (fst sel) of (v, present) \<Rightarrow> present \<and> v = snd sel)"

definition filters_Match :: "filter \<Rightarrow> adaptor \<Rightarrow> bool" where
  "filters_Match f a = list_all (\<lambda>sel. selector_Match sel a) f"

subsection \<open>Descriptors\<close>

text \<open>
  \<^verbatim>\<open>ocispec.Platform\<close> and \<^verbatim>\<open>ocispec.Descriptor\<close>, with the fields the importers read
  or write. A nil \<^verbatim>\<open>*Platform\<close> is \<open>None\<close>; a digest is its string form.
\<close>

record platform =
  Architecture :: string
  OS :: string
  Variant :: string

record descriptor =
  MediaType :: string
  Digest :: string
  Size :: int
  Annotations :: "string \<rightharpoonup> string"
  Platform :: "platform option"

text \<open>The annotation key named in the importer's documentation of the \<^verbatim>\<open>tag\<close> filter.\<close>

definition AnnotationRefName :: string where
  "AnnotationRefName = ''org.opencontainers.image.ref.name''"

subsection \<open>OCI variant: selecting a manifest of the index\<close>

text \<open>\<^verbatim>\<open>adaptImage\<close> of \<^verbatim>\<open>imageformats/oci/importer.go\<close>: the named-field view of an index entry.\<close>

definition oci_adaptImage :: "nat \<Rightarrow> descriptor \<Rightarrow> adaptor" where
  "oci_adaptImage index m fieldpath =
     (case fieldpath of
        [] \<Rightarrow> ([], False)
      | fld # _ \<Rightarrow>
          if fld = ''index'' then (strconv_Itoa index, True)
          else if fld = ''tag'' then
            (case Annotations m AnnotationRefName of
               None \<Rightarrow> ([], False)
             | Some tag \<Rightarrow> (tag, True))
          else if fld = ''digest'' then (Digest m, 0 < length (Digest m))
          else if fld = ''mediaType'' then (MediaType m, 0 < length (MediaType m))
          else if fld = ''architecture'' then
            (case Platform m of
               None \<Rightarrow> ([], False)
             | Some p \<Rightarrow> if Architecture p \<noteq> [] then (Architecture p, True) else ([], False))
          else if fld = ''os'' then
            (case Platform m of
               None \<Rightarrow> ([], False)
             | Some p \<Rightarrow> if OS p \<noteq> [] then (OS p, True) else ([], False))
          else if fld = ''variant'' then
            (case Platform m of
               None \<Rightarrow> ([], False)
             | Some p \<Rightarrow> if Variant p \<noteq> [] then (Variant p, True) else ([], False))
          else ([], False))"

text \<open>
  The loop \<^verbatim>\<open>for i, m := range manifests\<close> of \<^verbatim>\<open>filterManifests\<close>, with the running
  index and the slice \<^verbatim>\<open>matched\<close> as arguments.
\<close>

fun oci_match_loop ::
  "filter \<Rightarrow> nat \<Rightarrow> descriptor list \<Rightarrow> descriptor list \<Rightarrow> descriptor list" where
  "oci_match_loop f i [] matched = matched"
| "oci_match_loop f i (m # ms) matched =
     oci_match_loop f (Suc i) ms
       (if filters_Match f (oci_adaptImage i m) then matched @ [m] else matched)"

text \<open>The three-way decision on \<^verbatim>\<open>matched\<close> that ends both \<^verbatim>\<open>filterManifests\<close>.\<close>

definition select_matched :: "string \<Rightarrow> 'a list \<Rightarrow> error + 'a" where
  "select_matched flt matched =
     (if 1 < length matched then Inl (Wrapf ErrAmbiguous (FilterMatched flt (length matched)))
      else if length matched = 0 then Inl (Wrapf ErrNotFound (FilterDidNotMatch flt))
      else Inr (matched ! 0))"

definition oci_filterManifests :: "descriptor list \<Rightarrow> string \<Rightarrow> error + descriptor" where
  "oci_filterManifests manifests flt =
     (case filters_Parse flt of
        Inl e \<Rightarrow> Inl e
      | Inr f \<Rightarrow> select_matched flt (oci_match_loop f 0 manifests []))"

subsection \<open>Archive records, external libraries, the content store\<close>

text \<open>
  One record of the archive reader: the header's type flag and name, and the bytes
  its bounded reader yields. The reader hands out exactly the declared number of
  bytes, so \<^verbatim>\<open>hdr.Size\<close> is the length of the data. A stream is the sequence of
  results of \<^verbatim>\<open>tr.Next()\<close>; the end of the list is \<^verbatim>\<open>io.EOF\<close>, and \<open>Broken\<close> is any
  other error of the reader.
\<close>

record tar_entry =
  Typeflag :: char
  Name :: string
  Data :: bytes

definition hdr_Size :: "tar_entry \<Rightarrow> int" where
  "hdr_Size e = int (length (Data e))"

datatype tar_next = Entry tar_entry | Broken

definition TypeReg :: char where
  "TypeReg = CHR ''0''"

definition TypeRegA :: char where
  "TypeRegA = CHR 0x00"

text \<open>The legacy manifest entry (\<^verbatim>\<open>contrib/docker1/spec.go\<close>) and the types it is resolved to.\<close>

record manifest =
  Config :: string
  RepoTags :: "string list"
  Layers :: "string list"
  Parent :: string

text \<open>\<^verbatim>\<open>ocispec.Image\<close>, of which the importer reads the architecture and the OS.\<close>

record image =
  img_Architecture :: string
  img_OS :: string

record imageConfig =
  desc :: descriptor
  img :: image

text \<open>\<^verbatim>\<open>ocispec.Manifest\<close>: the canonical manifest the legacy importer assembles.\<close>

record oci_manifest =
  SchemaVersion :: int
  ManifestConfig :: descriptor
  ManifestLayers :: "descriptor list"

text \<open>
  The functions of libraries outside the repository are parameters of the model:
  the canonical digest of a byte sequence (\<^verbatim>\<open>digest.FromBytes\<close>, which is also what a
  content writer computes), \<^verbatim>\<open>digest.Algorithm.Available\<close>, and the JSON decoders and
  the encoder of \<^verbatim>\<open>encoding/json\<close> at the types the importers use them at.
\<close>

record libs =
  digest_FromBytes :: "bytes \<Rightarrow> string"
  algo_Available :: "string \<Rightarrow> bool"
  unmarshal_Index :: "bytes \<Rightarrow> descriptor list option"
  unmarshal_manifests :: "bytes \<Rightarrow> manifest list option"
  unmarshal_Image :: "bytes \<Rightarrow> image option"
  marshal_Manifest :: "oci_manifest \<Rightarrow> bytes"

text \<open>The content store: committed bytes by digest.\<close>

type_synonym store = "string \<rightharpoonup> bytes"

text \<open>
  Modelled from the spec: package \<^verbatim>\<open>content\<close> (the \<^verbatim>\<open>Store\<close> writer with
  \<^verbatim>\<open>Writer\<close>, \<^verbatim>\<open>Commit\<close> and \<^verbatim>\<open>Digest\<close>, and \<^verbatim>\<open>content.WriteBlob\<close>) is not among the
  sources. The specification's ingester copies exactly the declared number of
  bytes (too few is \<open>TruncatedInput\<close>, too many \<open>OversizedInput\<close>), computes the digest
  of the bytes copied, and commits under that digest; when an expected digest is
  supplied the commit is rejected with \<open>DigestMismatch\<close> unless the computed digest
  equals it. As in the Go interface, the empty string is "no expected digest".
  Committing the same bytes again succeeds and leaves the store as it is.
\<close>

definition store_ingest ::
  "libs \<Rightarrow> store \<Rightarrow> string \<Rightarrow> bytes \<Rightarrow> int \<Rightarrow> string \<Rightarrow> (error + string) \<times> store" where
  "store_ingest X s ref r sz expected =
     (if int (length r) < sz then (Inl TruncatedInput, s)
      else if sz < int (length r) then (Inl OversizedInput, s)
      else (let d = digest_FromBytes X r in
            if expected \<noteq> [] \<and> d \<noteq> expected then (Inl (DigestMismatch d expected), s)
            else (Inr d, s(d \<mapsto> r))))"

definition content_WriteBlob ::
  "libs \<Rightarrow> store \<Rightarrow> string \<Rightarrow> bytes \<Rightarrow> int \<Rightarrow> string \<Rightarrow> (error + unit) \<times> store" where
  "content_WriteBlob X s ref r sz expected =
     (case store_ingest X s ref r sz expected of
        (Inl e, s') \<Rightarrow> (Inl e, s')
      | (Inr d, s') \<Rightarrow> (Inr (), s'))"

subsection \<open>OCI variant: the import\<close>

definition onUntarIndexJSON :: "libs \<Rightarrow> bytes \<Rightarrow> string \<Rightarrow> error + descriptor" where
  "onUntarIndexJSON X b flt =
     (case unmarshal_Index X b of
        None \<Rightarrow> Inl MalformedMetadata
      | Some manifests \<Rightarrow> oci_filterManifests manifests flt)"

definition onUntarBlob ::
  "libs \<Rightarrow> store \<Rightarrow> bytes \<Rightarrow> string \<Rightarrow> int \<Rightarrow> (error + unit) \<times> store" where
  "onUntarBlob X s r name sz =
     (let split = strings_Split name (CHR ''/'') in
      if length split \<noteq> 3 then (Inl (Errorf (UnexpectedName name)), s)
      else (let algo = split ! 1 in
            if \<not> algo_Available X algo then (Inl (Errorf (UnsupportedAlgorithm algo)), s)
            else (let dgst = algo @ '':'' @ split ! 2 in
                  content_WriteBlob X s (''unknown-'' @ dgst) r sz dgst)))"

text \<open>
  The loop of \<^verbatim>\<open>Import\<close> over the records, with the variable \<^verbatim>\<open>desc\<close> and the store
  as arguments. An error leaves the loop at once; the store keeps what was
  committed before.
\<close>

fun oci_scan ::
  "libs \<Rightarrow> string \<Rightarrow> tar_next list \<Rightarrow> descriptor option \<Rightarrow> store
     \<Rightarrow> (error + descriptor option) \<times> store" where
  "oci_scan X flt [] d s = (Inr d, s)"
| "oci_scan X flt (Broken # rest) d s = (Inl MalformedArchive, s)"
| "oci_scan X flt (Entry hdr # rest) d s =
     (if Typeflag hdr \<noteq> TypeReg \<and> Typeflag hdr \<noteq> TypeRegA then oci_scan X flt rest d s
      else if Name hdr = ''index.json'' then
        (case onUntarIndexJSON X (Data hdr) flt of
           Inl e \<Rightarrow> (Inl e, s)
         | Inr d' \<Rightarrow> oci_scan X flt rest (Some d') s)
      else if strings_HasPrefix (Name hdr) ''blobs/'' then
        (case onUntarBlob X s (Data hdr) (Name hdr) (hdr_Size hdr) of
           (Inl e, s') \<Rightarrow> (Inl e, s')
         | (Inr u, s') \<Rightarrow> oci_scan X flt rest d s')
      else oci_scan X flt rest d s)"

definition oci_Import ::
  "libs \<Rightarrow> store \<Rightarrow> tar_next list \<Rightarrow> string \<Rightarrow> (error + descriptor) \<times> store" where
  "oci_Import X s reader flt =
     (case oci_scan X flt reader None s of
        (Inl e, s') \<Rightarrow> (Inl e, s')
      | (Inr None, s') \<Rightarrow> (Inl (Errorf (NoDescriptorFound flt)), s')
      | (Inr (Some d), s') \<Rightarrow> (Inr d, s'))"

subsection \<open>Legacy variant: selecting an entry of \<^verbatim>\<open>manifest.json\<close>\<close>

text \<open>
  Modelled from the spec: the media-type constants of package \<^verbatim>\<open>images\<close> are not
  among the sources; they denote the canonical manifest, layer and config kinds.
\<close>

definition MediaTypeDockerSchema2Manifest :: string where
  "MediaTypeDockerSchema2Manifest = ''application/vnd.docker.distribution.manifest.v2+json''"

definition MediaTypeDockerSchema2Layer :: string where
  "MediaTypeDockerSchema2Layer = ''application/vnd.docker.image.rootfs.diff.tar''"

definition MediaTypeDockerSchema2Config :: string where
  "MediaTypeDockerSchema2Config = ''application/vnd.docker.container.image.v1+json''"

definition isLayerTar :: "string \<Rightarrow> bool" where
  "isLayerTar name =
     (let slashes = length (strings_Split name (CHR ''/''))
      in slashes = 2 \<and> strings_HasSuffix name ''/layer.tar'')"

definition isDotJSON :: "string \<Rightarrow> bool" where
  "isDotJSON name =
     (let slashes = length (strings_Split name (CHR ''/''))
      in slashes = 1 \<and> strings_HasSuffix name ''.json'')"

text \<open>\<^verbatim>\<open>adaptImage\<close> of \<^verbatim>\<open>contrib/docker1/importer.go\<close>: only \<^verbatim>\<open>index\<close> is a field.\<close>

definition docker_adaptImage :: "nat \<Rightarrow> manifest \<Rightarrow> adaptor" where
  "docker_adaptImage index m fieldpath =
     (case fieldpath of
        [] \<Rightarrow> ([], False)
      | fld # _ \<Rightarrow> if fld = ''index'' then (strconv_Itoa index, True) else ([], False))"

text \<open>
  The loop of the legacy \<^verbatim>\<open>filterManifests\<close>: each entry is first checked for a
  \<^verbatim>\<open>Parent\<close>, which ends the function with an error, and then matched.
\<close>

fun docker_match_loop ::
  "filter \<Rightarrow> nat \<Rightarrow> manifest list \<Rightarrow> manifest list \<Rightarrow> error + manifest list" where
  "docker_match_loop f i [] matched = Inr matched"
| "docker_match_loop f i (m # ms) matched =
     (if Parent m \<noteq> [] then Inl (Errorf (ParentNotSupported (Parent m)))
      else docker_match_loop f (Suc i) ms
             (if filters_Match f (docker_adaptImage i m) then matched @ [m] else matched))"

definition docker_filterManifests :: "manifest list \<Rightarrow> string \<Rightarrow> error + manifest" where
  "docker_filterManifests manifests flt =
     (case filters_Parse flt of
        Inl e \<Rightarrow> Inl e
      | Inr f \<Rightarrow>
          (case docker_match_loop f 0 manifests [] of
             Inl e \<Rightarrow> Inl e
           | Inr matched \<Rightarrow> select_matched flt matched))"

subsection \<open>Legacy variant: the import\<close>

definition onUntarManifestJSON :: "libs \<Rightarrow> bytes \<Rightarrow> string \<Rightarrow> error + manifest" where
  "onUntarManifestJSON X b flt =
     (case unmarshal_manifests X b of
        None \<Rightarrow> Inl MalformedMetadata
      | Some mfsts \<Rightarrow> docker_filterManifests mfsts flt)"

text \<open>
  \<^verbatim>\<open>onUntarLayerTar\<close> and \<^verbatim>\<open>onUntarDotJSON\<close> open a writer without an expected digest,
  copy, commit with the declared size, and take the writer's digest as the
  blob's identity. The config is decoded after the commit.
\<close>

definition onUntarLayerTar ::
  "libs \<Rightarrow> store \<Rightarrow> bytes \<Rightarrow> string \<Rightarrow> int \<Rightarrow> (error + descriptor) \<times> store" where
  "onUntarLayerTar X s r name sz =
     (let split = strings_Split name (CHR ''/'') in
      case store_ingest X s (''unknown-'' @ split ! 0) r sz [] of
        (Inl e, s') \<Rightarrow> (Inl e, s')
      | (Inr d, s') \<Rightarrow>
          (Inr \<lparr>MediaType = MediaTypeDockerSchema2Layer, Digest = d, Size = sz,
                Annotations = Map.empty, Platform = None\<rparr>, s'))"

definition onUntarDotJSON ::
  "libs \<Rightarrow> store \<Rightarrow> bytes \<Rightarrow> string \<Rightarrow> int \<Rightarrow> (error + imageConfig) \<times> store" where
  "onUntarDotJSON X s r name sz =
     (case store_ingest X s (''unknown-'' @ name) r sz [] of
        (Inl e, s') \<Rightarrow> (Inl e, s')
      | (Inr d, s') \<Rightarrow>
          (case unmarshal_Image X r of
             None \<Rightarrow> (Inl MalformedMetadata, s')
           | Some i \<Rightarrow>
               (Inr \<lparr>desc = \<lparr>MediaType = MediaTypeDockerSchema2Config, Digest = d, Size = sz,
                             Annotations = Map.empty, Platform = None\<rparr>,
                      img = i\<rparr>, s')))"

text \<open>The loop of \<^verbatim>\<open>makeDockerSchema2Manifest\<close> over \<^verbatim>\<open>mfst.Layers\<close>, appending to \<^verbatim>\<open>manifest.Layers\<close>.\<close>

fun layers_loop ::
  "(string \<rightharpoonup> descriptor) \<Rightarrow> string list \<Rightarrow> descriptor list \<Rightarrow> error + descriptor list" where
  "layers_loop layers [] acc = Inr acc"
| "layers_loop layers (f # fs) acc =
     (case layers f of
        None \<Rightarrow> Inl (Errorf (LayerNotFound f))
      | Some d \<Rightarrow> layers_loop layers fs (acc @ [d]))"

definition makeDockerSchema2Manifest ::
  "manifest \<Rightarrow> imageConfig \<Rightarrow> (string \<rightharpoonup> descriptor) \<Rightarrow> error + oci_manifest" where
  "makeDockerSchema2Manifest mfst config layers =
     (case layers_loop layers (Layers mfst) [] of
        Inl e \<Rightarrow> Inl e
      | Inr ls \<Rightarrow> Inr \<lparr>SchemaVersion = 2, ManifestConfig = desc config, ManifestLayers = ls\<rparr>)"

text \<open>
  \<^verbatim>\<open>writeDockerSchema2Manifest\<close>: the manifest is encoded (\<^verbatim>\<open>json.Marshal\<close> has no
  failing case at this type), written under its own digest, and described by a
  descriptor whose platform is set only under \<^verbatim>\<open>arch != "" || os != ""\<close>.
\<close>

definition writeDockerSchema2Manifest ::
  "libs \<Rightarrow> store \<Rightarrow> oci_manifest \<Rightarrow> string \<Rightarrow> string \<Rightarrow> (error + descriptor) \<times> store" where
  "writeDockerSchema2Manifest X s mf arch os =
     (let manifestBytes = marshal_Manifest X mf;
          manifestDigest = digest_FromBytes X manifestBytes
      in case content_WriteBlob X s (''unknown-'' @ manifestDigest) manifestBytes
                (int (length manifestBytes)) manifestDigest of
           (Inl e, s') \<Rightarrow> (Inl e, s')
         | (Inr u, s') \<Rightarrow>
             (Inr \<lparr>MediaType = MediaTypeDockerSchema2Manifest, Digest = manifestDigest,
                   Size = int (length manifestBytes), Annotations = Map.empty,
                   Platform = (if arch \<noteq> [] \<or> os \<noteq> []
                               then Some \<lparr>Architecture = arch, OS = os, Variant = []\<rparr>
                               else None)\<rparr>, s'))"

text \<open>
  The state of the legacy \<^verbatim>\<open>Import\<close> loop: the selected entry \<^verbatim>\<open>mfst\<close> (nil at
  first), the table \<^verbatim>\<open>layers\<close> and the table \<^verbatim>\<open>configs\<close>, both keyed by file name.
\<close>

record tables =
  mfst :: "manifest option"
  layers :: "string \<rightharpoonup> descriptor"
  configs :: "string \<rightharpoonup> imageConfig"

definition tables0 :: tables where
  "tables0 = \<lparr>mfst = None, layers = Map.empty, configs = Map.empty\<rparr>"

fun docker_scan ::
  "libs \<Rightarrow> string \<Rightarrow> tar_next list \<Rightarrow> tables \<Rightarrow> store \<Rightarrow> (error + tables) \<times> store" where
  "docker_scan X flt [] t s = (Inr t, s)"
| "docker_scan X flt (Broken # rest) t s = (Inl MalformedArchive, s)"
| "docker_scan X flt (Entry hdr # rest) t s =
     (if Typeflag hdr \<noteq> TypeReg \<and> Typeflag hdr \<noteq> TypeRegA then docker_scan X flt rest t s
      else if Name hdr = ''manifest.json'' then
        (case onUntarManifestJSON X (Data hdr) flt of
           Inl e \<Rightarrow> (Inl e, s)
         | Inr m \<Rightarrow> docker_scan X flt rest (t\<lparr>mfst := Some m\<rparr>) s)
      else if isLayerTar (Name hdr) then
        (case onUntarLayerTar X s (Data hdr) (Name hdr) (hdr_Size hdr) of
           (Inl e, s') \<Rightarrow> (Inl e, s')
         | (Inr d, s') \<Rightarrow>
             docker_scan X flt rest (t\<lparr>layers := (layers t)(Name hdr \<mapsto> d)\<rparr>) s')
      else if isDotJSON (Name hdr) then
        (case onUntarDotJSON X s (Data hdr) (Name hdr) (hdr_Size hdr) of
           (Inl e, s') \<Rightarrow> (Inl e, s')
         | (Inr c, s') \<Rightarrow>
             docker_scan X flt rest (t\<lparr>configs := (configs t)(Name hdr \<mapsto> c)\<rparr>) s')
      else docker_scan X flt rest t s)"

text \<open>What \<^verbatim>\<open>Import\<close> does after the loop, on the tables the scan has left.\<close>

definition docker_resolve ::
  "libs \<Rightarrow> string \<Rightarrow> tables \<Rightarrow> store \<Rightarrow> (error + descriptor) \<times> store" where
  "docker_resolve X flt t s =
     (case mfst t of
        None \<Rightarrow> (Inl (Errorf (NoManifestFound flt)), s)
      | Some m \<Rightarrow>
          (case configs t (Config m) of
             None \<Rightarrow> (Inl (Errorf (ImageConfigNotFound (Config m) flt)), s)
           | Some config \<Rightarrow>
               (case makeDockerSchema2Manifest m config (layers t) of
                  Inl e \<Rightarrow> (Inl e, s)
                | Inr schema2Manifest \<Rightarrow>
                    writeDockerSchema2Manifest X s schema2Manifest
                      (img_Architecture (img config)) (img_OS (img config)))))"

definition docker_Import ::
  "libs \<Rightarrow> store \<Rightarrow> tar_next list \<Rightarrow> string \<Rightarrow> (error + descriptor) \<times> store" where
  "docker_Import X s reader flt =
     (case docker_scan X flt reader tables0 s of
        (Inl e, s') \<Rightarrow> (Inl e, s')
      | (Inr t, s') \<Rightarrow> docker_resolve X flt t s')"

subsection \<open>The specification's notions\<close>

text \<open>
  The subset of candidates matching a predicate, each candidate being an entry
  paired with its ordinal position, and the selection policy in the
  specification's words: no match is \<open>NotFound\<close>, exactly one match is returned,
  more than one is \<open>Ambiguous\<close>.
\<close>

definition oci_matching :: "filter \<Rightarrow> descriptor list \<Rightarrow> descriptor list" where
  "oci_matching f ms =
     map snd (filter (\<lambda>(i, m). filters_Match f (oci_adaptImage i m)) (enumerate 0 ms))"

definition docker_matching :: "filter \<Rightarrow> manifest list \<Rightarrow> manifest list" where
  "docker_matching f ms =
     map snd (filter (\<lambda>(i, m). filters_Match f (docker_adaptImage i m)) (enumerate 0 ms))"

definition spec_select :: "string \<Rightarrow> 'a list \<Rightarrow> error + 'a" where
  "spec_select flt matching =
     (case matching of
        [] \<Rightarrow> Inl (Wrapf ErrNotFound (FilterDidNotMatch flt))
      | [c] \<Rightarrow> Inr c
      | _ \<Rightarrow> Inl (Wrapf ErrAmbiguous (FilterMatched flt (length matching))))"

text \<open>Every blob of the store is committed under the digest of its bytes.\<close>

definition store_ok :: "libs \<Rightarrow> store \<Rightarrow> bool" where
  "store_ok X s = (\<forall>d b. s d = Some b \<longrightarrow> digest_FromBytes X b = d)"

text \<open>The stream has a regular-file record of the given name.\<close>

fun is_regular_named :: "string \<Rightarrow> tar_next \<Rightarrow> bool" where
  "is_regular_named n (Entry hdr) =
     ((Typeflag hdr = TypeReg \<or> Typeflag hdr = TypeRegA) \<and> Name hdr = n)"
| "is_regular_named n Broken = False"

definition has_regular :: "string \<Rightarrow> tar_next list \<Rightarrow> bool" where
  "has_regular n reader = list_ex (is_regular_named n) reader"

text \<open>
  A name of the form \<^verbatim>\<open>blobs/<algorithm>/<hex>\<close>: three segments, the first being
  \<^verbatim>\<open>blobs\<close>.
\<close>

definition blob_pattern :: "string \<Rightarrow> bool" where
  "blob_pattern name =
     (case strings_Split name (CHR ''/'') of
        [b, a, h] \<Rightarrow> b = ''blobs''
      | _ \<Rightarrow> False)"

subsection \<open>Sample data\<close>

text \<open>
  A small instance of the library parameters, on which the functions above can be
  evaluated: the digest of a byte sequence is the sequence itself behind the
  prefix \<^verbatim>\<open>sha256:\<close>, and the decoders know a handful of payloads.
\<close>

definition entryA :: manifest where
  "entryA = \<lparr>Config = ''a.json'', RepoTags = [''a:latest''],
             Layers = [''1/layer.tar'', ''2/layer.tar''], Parent = []\<rparr>"

definition entryB :: manifest where
  "entryB = \<lparr>Config = ''b.json'', RepoTags = [''b:latest''],
             Layers = [''2/layer.tar''], Parent = []\<rparr>"

definition entryP :: manifest where
  "entryP = \<lparr>Config = ''p.json'', RepoTags = [], Layers = [], Parent = ''a''\<rparr>"

definition descX :: descriptor where
  "descX = \<lparr>MediaType = ''application/vnd.oci.image.manifest.v1+json'', Digest = ''sha256:x'',
            Size = 1, Annotations = [AnnotationRefName \<mapsto> ''foo''],
            Platform = Some \<lparr>Architecture = ''amd64'', OS = ''linux'', Variant = []\<rparr>\<rparr>"

definition descY :: descriptor where
  "descY = \<lparr>MediaType = ''application/vnd.oci.image.manifest.v1+json'', Digest = ''sha256:y'',
            Size = 1, Annotations = Map.empty, Platform = None\<rparr>"

definition sample_libs :: libs where
  "sample_libs =
     \<lparr>digest_FromBytes = (\<lambda>b. ''sha256:'' @ b),
      algo_Available = (\<lambda>a. a = ''sha256''),
      unmarshal_Index =
        (\<lambda>b. if b = ''[x]'' then Some [descX]
              else if b = ''[x,y]'' then Some [descX, descY] else None),
      unmarshal_manifests =
        (\<lambda>b. if b = ''[A]'' then Some [entryA]
              else if b = ''[A,B]'' then Some [entryA, entryB]
              else if b = ''[A,P]'' then Some [entryA, entryP] else None),
      unmarshal_Image =
        (\<lambda>b. if b = ''{arm,linux}'' then Some \<lparr>img_Architecture = ''arm'', img_OS = ''linux''\<rparr>
              else if b = ''{}'' then Some \<lparr>img_Architecture = [], img_OS = []\<rparr> else None),
      marshal_Manifest =
        (\<lambda>mf. Digest (ManifestConfig mf) @ concat (map Digest (ManifestLayers mf)))\<rparr>"

definition reg :: "string \<Rightarrow> bytes \<Rightarrow> tar_next" where
  "reg name b = Entry \<lparr>Typeflag = TypeReg, Name = name, Data = b\<rparr>"

definition layer1 :: descriptor where
  "layer1 = \<lparr>MediaType = MediaTypeDockerSchema2Layer, Digest = ''sha256:one'', Size = 3,
             Annotations = Map.empty, Platform = None\<rparr>"

definition layer2 :: descriptor where
  "layer2 = \<lparr>MediaType = MediaTypeDockerSchema2Layer, Digest = ''sha256:two'', Size = 3,
             Annotations = Map.empty, Platform = None\<rparr>"

definition configA :: imageConfig where
  "configA = \<lparr>desc = \<lparr>MediaType = MediaTypeDockerSchema2Config, Digest = ''sha256:{arm,linux}'',
                       Size = 11, Annotations = Map.empty, Platform = None\<rparr>,
              img = \<lparr>img_Architecture = ''arm'', img_OS = ''linux''\<rparr>\<rparr>"

section \<open>Properties\<close>

subsection \<open>Evaluation and the loops of selection\<close>

declare strconv_Itoa.simps [simp del]

lemma oci_match_loop_eq:
  "oci_match_loop f i ms matched =
     matched @ map snd (filter (\<lambda>(j, m). filters_Match f (oci_adaptImage j m)) (enumerate i ms))"
  by (induction ms arbitrary: i matched) simp_all

lemma docker_match_loop_eq:
  "\<forall>m\<in>set ms. Parent m = [] \<Longrightarrow>
   docker_match_loop f i ms matched =
     Inr (matched @
       map snd (filter (\<lambda>(j, m). filters_Match f (docker_adaptImage j m)) (enumerate i ms)))"
  by (induction ms arbitrary: i matched) simp_all

lemma docker_match_loop_parent:
  "find (\<lambda>m. Parent m \<noteq> []) ms = Some m0 \<Longrightarrow>
   docker_match_loop f i ms matched = Inl (Errorf (ParentNotSupported (Parent m0)))"
  by (induction ms arbitrary: i matched) (simp_all split: if_splits)

lemma select_matched_eq: "select_matched flt matched = spec_select flt matched"
proof (cases matched)
  case Nil
  then show ?thesis by (simp add: select_matched_def spec_select_def)
next
  case (Cons x xs)
  then show ?thesis by (cases xs) (simp_all add: select_matched_def spec_select_def)
qed

lemma Itoa_0: "strconv_Itoa 0 = ''0''"
  by (simp add: strconv_Itoa.simps digit_char_def)

lemma Itoa_1: "strconv_Itoa (Suc 0) = ''1''"
  by (simp add: strconv_Itoa.simps digit_char_def)

lemma parse_index0: "filters_Parse ''index==0'' = Inr [([''index''], ''0'')]"
  by (simp add: filters_Parse_def parse_clause_def)

lemma parse_index1: "filters_Parse ''index==1'' = Inr [([''index''], ''1'')]"
  by (simp add: filters_Parse_def parse_clause_def)

lemma parse_empty: "filters_Parse [] = Inr []"
  by (simp add: filters_Parse_def)

lemma matching_empty_filter:
  "map snd (filter (\<lambda>(j, m). filters_Match [] (g j m)) (enumerate i ms)) = ms"
  by (induction ms arbitrary: i) (simp_all add: filters_Match_def)

lemma spec_select_many: "2 \<le> length xs \<Longrightarrow>
  spec_select flt xs = Inl (Wrapf ErrAmbiguous (FilterMatched flt (length xs)))"
  by (cases xs; cases "tl xs") (simp_all add: spec_select_def)

subsection \<open>Selection policy\<close>

text \<open>
  Claim C1, as amended. For every well-formed filter expression, the OCI selection
  returns what the specification's policy returns on the subset of index entries
  matching the predicate: the candidate if exactly one matches, \<open>Ambiguous\<close> if more
  than one does, \<open>NotFound\<close> if none does. The legacy selection does the same on
  every list none of whose entries has a non-empty \<^verbatim>\<open>Parent\<close>. The two failures wrap
  distinct sentinels, which a caller tells apart by their cause.
\<close>

theorem selection_policy:
  assumes "filters_Parse flt = Inr f"
  shows "oci_filterManifests ms flt = spec_select flt (oci_matching f ms)
       \<and> ((\<forall>m\<in>set ds. Parent m = []) \<longrightarrow>
            docker_filterManifests ds flt = spec_select flt (docker_matching f ds))
       \<and> (\<forall>a b. Wrapf ErrAmbiguous a \<noteq> Wrapf ErrNotFound b)
       \<and> (\<forall>a. has_cause ErrAmbiguous (Wrapf ErrAmbiguous a)
              \<and> \<not> has_cause ErrNotFound (Wrapf ErrAmbiguous a))
       \<and> (\<forall>b. has_cause ErrNotFound (Wrapf ErrNotFound b)
              \<and> \<not> has_cause ErrAmbiguous (Wrapf ErrNotFound b))"
proof -
  have oci: "oci_filterManifests ms flt = spec_select flt (oci_matching f ms)"
    using assms
    by (simp add: oci_filterManifests_def oci_matching_def oci_match_loop_eq select_matched_eq)
  have docker: "docker_filterManifests ds flt = spec_select flt (docker_matching f ds)"
    if "\<forall>m\<in>set ds. Parent m = []"
    using assms that
    by (simp add: docker_filterManifests_def docker_matching_def docker_match_loop_eq
        select_matched_eq)
  show ?thesis using oci docker by simp
qed

text \<open>The policy at the filter \<^verbatim>\<open>index==1\<close> on two-entry lists of both variants.\<close>

theorem selection_policy_witness:
  "filters_Parse ''index==1'' = Inr [([''index''], ''1'')]
   \<and> Parent entryA = [] \<and> Parent entryB = []
   \<and> oci_filterManifests [descX, descY] ''index==1'' = Inr descY
   \<and> docker_filterManifests [entryA, entryB] ''index==1'' = Inr entryB"
proof -
  have np: "\<forall>m\<in>set [entryA, entryB]. Parent m = []"
    by (simp add: entryA_def entryB_def)
  have om: "oci_matching [([''index''], ''1'')] [descX, descY] = [descY]"
    by (simp add: oci_matching_def filters_Match_def selector_Match_def oci_adaptImage_def
        Itoa_0 Itoa_1)
  have dm: "docker_matching [([''index''], ''1'')] [entryA, entryB] = [entryB]"
    by (simp add: docker_matching_def filters_Match_def selector_Match_def docker_adaptImage_def
        Itoa_0 Itoa_1)
  show ?thesis
    using selection_policy [OF parse_index1, of "[descX, descY]" "[entryA, entryB]"] np
    by (simp add: parse_index1 om dm spec_select_def)
qed

text \<open>
  The claim as stated for the legacy variant fails: exactly one entry matches
  \<^verbatim>\<open>index==0\<close>, yet selection does not return it, because the other entry has a
  \<^verbatim>\<open>Parent\<close>.
\<close>

theorem selection_policy_counterexample:
  "filters_Parse ''index==0'' = Inr [([''index''], ''0'')]
   \<and> docker_matching [([''index''], ''0'')] [entryA, entryP] = [entryA]
   \<and> docker_filterManifests [entryA, entryP] ''index==0'' = Inl (Errorf (ParentNotSupported ''a''))
   \<and> docker_filterManifests [entryA, entryP] ''index==0'' \<noteq> Inr entryA"
proof -
  have dm: "docker_matching [([''index''], ''0'')] [entryA, entryP] = [entryA]"
    by (simp add: docker_matching_def filters_Match_def selector_Match_def docker_adaptImage_def
        Itoa_0 Itoa_1)
  have r: "docker_filterManifests [entryA, entryP] ''index==0'' = Inl (Errorf (ParentNotSupported ''a''))"
    by (simp add: docker_filterManifests_def parse_index0 entryA_def entryP_def)
  show ?thesis using dm r by (simp add: parse_index0)
qed

subsection \<open>The empty expression\<close>

text \<open>
  Claim C3, as amended. The empty expression parses to the predicate that matches
  every candidate. In the OCI variant, selection with the empty expression returns
  the single entry of a one-entry list whatever its fields are, and fails with
  \<open>Ambiguous\<close> on every list of two or more entries. In the legacy variant the same
  holds for lists none of whose entries has a non-empty \<^verbatim>\<open>Parent\<close>.
\<close>

theorem empty_expression:
  "filters_Parse [] = Inr []
   \<and> (\<forall>a. filters_Match [] a)
   \<and> oci_filterManifests [d] [] = Inr d
   \<and> (2 \<le> length ds \<longrightarrow>
        oci_filterManifests ds [] = Inl (Wrapf ErrAmbiguous (FilterMatched [] (length ds))))
   \<and> (Parent m = [] \<longrightarrow> docker_filterManifests [m] [] = Inr m)
   \<and> (2 \<le> length ms \<and> (\<forall>m\<in>set ms. Parent m = []) \<longrightarrow>
        docker_filterManifests ms [] = Inl (Wrapf ErrAmbiguous (FilterMatched [] (length ms))))"
proof -
  have oci: "oci_filterManifests xs [] = spec_select [] xs" for xs
    by (simp add: oci_filterManifests_def parse_empty oci_match_loop_eq matching_empty_filter
        select_matched_eq)
  have docker: "docker_filterManifests xs [] = spec_select [] xs"
    if "\<forall>m\<in>set xs. Parent m = []" for xs
    using that
    by (simp add: docker_filterManifests_def parse_empty docker_match_loop_eq
        matching_empty_filter select_matched_eq)
  have one: "spec_select [] [x] = Inr x" for x :: 'a
    by (simp add: spec_select_def)
  have a: "oci_filterManifests [d] [] = Inr d"
    by (simp add: oci one)
  have b: "oci_filterManifests ds [] = Inl (Wrapf ErrAmbiguous (FilterMatched [] (length ds)))"
    if "2 \<le> length ds"
    using that by (simp add: oci spec_select_many)
  have c: "docker_filterManifests [m] [] = Inr m" if "Parent m = []"
    using that docker [of "[m]"] by (simp add: one)
  have e: "docker_filterManifests ms [] = Inl (Wrapf ErrAmbiguous (FilterMatched [] (length ms)))"
    if "2 \<le> length ms" "\<forall>m\<in>set ms. Parent m = []"
    using that by (simp add: docker spec_select_many)
  show ?thesis
    using a b c e by (simp add: parse_empty filters_Match_def)
qed

text \<open>The sample lists of one and of two entries, in both variants.\<close>

theorem empty_expression_witness:
  "2 \<le> length [descX, descY] \<and> Parent entryA = []
   \<and> 2 \<le> length [entryA, entryB] \<and> Parent entryB = []
   \<and> oci_filterManifests [descX] [] = Inr descX
   \<and> oci_filterManifests [descX, descY] [] = Inl (Wrapf ErrAmbiguous (FilterMatched [] 2))
   \<and> docker_filterManifests [entryA] [] = Inr entryA
   \<and> docker_filterManifests [entryA, entryB] [] = Inl (Wrapf ErrAmbiguous (FilterMatched [] 2))"
proof -
  have np: "Parent entryA = []" "Parent entryB = []"
    by (simp_all add: entryA_def entryB_def)
  show ?thesis
    using empty_expression [of descX "[descX, descY]" entryA "[entryA, entryB]"] np
    by simp
qed

text \<open>
  The claim as stated fails in the legacy variant: a one-entry list whose entry has
  a \<^verbatim>\<open>Parent\<close> is rejected under the empty expression.
\<close>

theorem empty_expression_counterexample:
  "length [entryP] = 1
   \<and> docker_filterManifests [entryP] [] = Inl (Errorf (ParentNotSupported ''a''))
   \<and> docker_filterManifests [entryP] [] \<noteq> Inr entryP"
  by (simp add: docker_filterManifests_def parse_empty entryP_def)

subsection \<open>Scanning a stream in two parts; the store\<close>

lemma oci_scan_append:
  "oci_scan X flt (pre @ rest) d s =
     (case oci_scan X flt pre d s of
        (Inl e, s') \<Rightarrow> (Inl e, s')
      | (Inr d', s') \<Rightarrow> oci_scan X flt rest d' s')"
proof (induction pre arbitrary: d s)
  case Nil
  then show ?case by simp
next
  case (Cons x pre)
  show ?case
  proof (cases x)
    case Broken
    then show ?thesis by simp
  next
    case (Entry hdr)
    then show ?thesis
      using Cons.IH by (simp split: sum.splits prod.splits)
  qed
qed

lemma docker_scan_append:
  "docker_scan X flt (pre @ rest) t s =
     (case docker_scan X flt pre t s of
        (Inl e, s') \<Rightarrow> (Inl e, s')
      | (Inr t', s') \<Rightarrow> docker_scan X flt rest t' s')"
proof (induction pre arbitrary: t s)
  case Nil
  then show ?case by simp
next
  case (Cons x pre)
  show ?case
  proof (cases x)
    case Broken
    then show ?thesis by simp
  next
    case (Entry hdr)
    then show ?thesis
      using Cons.IH by (simp split: sum.splits prod.splits)
  qed
qed

lemma Split_no_sep: "sep \<notin> set a \<Longrightarrow> strings_Split a sep = [a]"
  by (induction a) auto

lemma Split_append: "sep \<notin> set a \<Longrightarrow> strings_Split (a @ sep # b) sep = a # strings_Split b sep"
  by (induction a) auto

lemma Split_blob_name:
  assumes "CHR ''/'' \<notin> set algo" "CHR ''/'' \<notin> set hex"
  shows "strings_Split (''blobs/'' @ algo @ ''/'' @ hex) (CHR ''/'') = [''blobs'', algo, hex]"
proof -
  have "strings_Split (algo @ CHR ''/'' # hex) (CHR ''/'') = [algo, hex]"
    using assms by (simp add: Split_append Split_no_sep)
  then show ?thesis by simp
qed

lemma store_ingest_ok:
  "store_ok X s \<Longrightarrow> store_ok X (snd (store_ingest X s ref r sz expected))"
  by (simp add: store_ingest_def store_ok_def Let_def)

lemma WriteBlob_ok:
  "store_ok X s \<Longrightarrow> store_ok X (snd (content_WriteBlob X s ref r sz expected))"
  using store_ingest_ok [of X s ref r sz expected]
  by (auto simp: content_WriteBlob_def split: prod.splits sum.splits)

lemma onUntarBlob_ok:
  "store_ok X s \<Longrightarrow> store_ok X (snd (onUntarBlob X s r name sz))"
  by (simp add: onUntarBlob_def Let_def WriteBlob_ok)

lemma oci_scan_ok:
  "store_ok X s \<Longrightarrow> store_ok X (snd (oci_scan X flt reader d s))"
proof (induction reader arbitrary: d s)
  case Nil
  then show ?case by simp
next
  case (Cons x reader)
  show ?case
  proof (cases x)
    case Broken
    then show ?thesis using Cons.prems by simp
  next
    case (Entry hdr)
    have blob: "store_ok X (snd (onUntarBlob X s (Data hdr) (Name hdr) (hdr_Size hdr)))"
      using Cons.prems by (rule onUntarBlob_ok)
    show ?thesis
      using Entry Cons.prems Cons.IH blob
      by (auto split: sum.splits prod.splits)
  qed
qed

lemma oci_Import_ok:
  "store_ok X s \<Longrightarrow> store_ok X (snd (oci_Import X s reader flt))"
  using oci_scan_ok [of X s flt reader None]
  by (auto simp: oci_Import_def split: prod.splits sum.splits option.splits)

lemma onUntarBlob_mismatch:
  assumes "CHR ''/'' \<notin> set algo" "CHR ''/'' \<notin> set hex"
      and "algo_Available X algo"
      and "digest_FromBytes X r \<noteq> algo @ '':'' @ hex"
  shows "onUntarBlob X s r (''blobs/'' @ algo @ ''/'' @ hex) (int (length r)) =
           (Inl (DigestMismatch (digest_FromBytes X r) (algo @ '':'' @ hex)), s)"
  using assms
  by (simp add: onUntarBlob_def Split_blob_name [simplified] content_WriteBlob_def
      store_ingest_def Let_def)

lemma sample_pre_scan:
  "oci_scan sample_libs [] [reg ''blobs/sha256/x'' ''x''] None Map.empty =
     (Inr None, [''sha256:x'' \<mapsto> ''x''])"
  by (simp add: reg_def TypeReg_def TypeRegA_def strings_HasPrefix_def onUntarBlob_def
      content_WriteBlob_def store_ingest_def sample_libs_def hdr_Size_def Let_def)

lemma sample_layer_scan:
  "docker_scan sample_libs [] [reg ''1/layer.tar'' ''one''] tables0 Map.empty =
     (Inr (tables0\<lparr>layers := [''1/layer.tar'' \<mapsto>
              \<lparr>MediaType = MediaTypeDockerSchema2Layer, Digest = ''sha256:one'', Size = 3,
               Annotations = Map.empty, Platform = None\<rparr>]\<rparr>),
      [''sha256:one'' \<mapsto> ''one''])"
  by (simp add: reg_def TypeReg_def TypeRegA_def isLayerTar_def strings_HasSuffix_def
      onUntarLayerTar_def store_ingest_def sample_libs_def hdr_Size_def Let_def tables0_def)

lemma sample_other_scan:
  "oci_scan sample_libs [] [reg ''oci-layout'' ''y''] None Map.empty = (Inr None, Map.empty)"
  by (simp add: reg_def TypeReg_def TypeRegA_def strings_HasPrefix_def)

lemma sample_index_only:
  "oci_Import sample_libs Map.empty [reg ''index.json'' ''[x]''] [] = (Inr descX, Map.empty)"
  by (simp add: oci_Import_def reg_def TypeReg_def onUntarIndexJSON_def sample_libs_def
      oci_filterManifests_def parse_empty select_matched_def filters_Match_def)

lemma oci_scan_no_index:
  "\<not> has_regular ''index.json'' reader \<Longrightarrow> oci_scan X flt reader None s = (Inr d, s') \<Longrightarrow> d = None"
proof (induction reader arbitrary: s)
  case Nil
  then show ?case by simp
next
  case (Cons x reader)
  show ?case
  proof (cases x)
    case Broken
    then show ?thesis using Cons.prems by simp
  next
    case (Entry hdr)
    have rest: "\<not> has_regular ''index.json'' reader"
      using Cons.prems(1) by (simp add: has_regular_def)
    show ?thesis
      using Entry Cons.prems Cons.IH [OF rest]
      by (auto simp: has_regular_def split: if_splits sum.splits prod.splits)
  qed
qed

lemma docker_scan_no_manifest:
  "\<not> has_regular ''manifest.json'' reader \<Longrightarrow>
   docker_scan X flt reader t s = (Inr t', s') \<Longrightarrow> mfst t' = mfst t"
proof (induction reader arbitrary: t s)
  case Nil
  then show ?case by simp
next
  case (Cons x reader)
  show ?case
  proof (cases x)
    case Broken
    then show ?thesis using Cons.prems by simp
  next
    case (Entry hdr)
    have rest: "\<not> has_regular ''manifest.json'' reader"
      using Cons.prems(1) by (simp add: has_regular_def)
    show ?thesis
      using Entry Cons.prems
      by (auto simp: has_regular_def split: if_splits sum.splits prod.splits
          dest: Cons.IH [OF rest])
  qed
qed

lemma HasPrefix_append: "strings_HasPrefix s p \<Longrightarrow> s = p @ drop (length p) s"
  by (metis append_take_drop_id strings_HasPrefix_def)

lemma HasPrefix_blobs_Split:
  assumes "strings_HasPrefix name ''blobs/''"
  shows "\<exists>r. strings_Split name (CHR ''/'') = ''blobs'' # strings_Split r (CHR ''/'')"
proof -
  obtain r where "name = ''blobs/'' @ r"
    using HasPrefix_append [OF assms] by blast
  then have "strings_Split name (CHR ''/'') = ''blobs'' # strings_Split r (CHR ''/'')"
    by simp
  then show ?thesis by blast
qed

lemma not_pattern_length:
  assumes "strings_HasPrefix name ''blobs/''" and "\<not> blob_pattern name"
  shows "length (strings_Split name (CHR ''/'')) \<noteq> 3"
proof
  assume l: "length (strings_Split name (CHR ''/'')) = 3"
  obtain r where r: "strings_Split name (CHR ''/'') = ''blobs'' # strings_Split r (CHR ''/'')"
    using HasPrefix_blobs_Split [OF assms(1)] by blast
  obtain a h where "strings_Split r (CHR ''/'') = [a, h]"
    using l r by (cases "strings_Split r (CHR ''/'')"; cases "tl (strings_Split r (CHR ''/''))") auto
  then have "blob_pattern name"
    using r by (simp add: blob_pattern_def)
  then show False using assms(2) by simp
qed

subsection \<open>Digest verification of OCI blobs\<close>

text \<open>
  Claim C2. When the scan reaches a regular-file record named
  \<^verbatim>\<open>blobs/<algorithm>/<hex>\<close> with an available algorithm, and the digest of the
  record's bytes differs from the digest \<^verbatim>\<open><algorithm>:<hex>\<close> the name encodes, the
  import fails with \<open>DigestMismatch\<close> and the store is as the records before left it:
  the bytes are not committed. Moreover no import, failed or not, leaves a blob
  committed under a digest other than the digest of its bytes.
\<close>

theorem oci_digest_mismatch:
  assumes "oci_scan X flt pre None st = (Inr d, s)"
      and "Typeflag hdr = TypeReg \<or> Typeflag hdr = TypeRegA"
      and "Name hdr = ''blobs/'' @ algo @ ''/'' @ hex"
      and "CHR ''/'' \<notin> set algo" and "CHR ''/'' \<notin> set hex"
      and "algo_Available X algo"
      and "digest_FromBytes X (Data hdr) \<noteq> algo @ '':'' @ hex"
  shows "oci_Import X st (pre @ Entry hdr # post) flt =
           (Inl (DigestMismatch (digest_FromBytes X (Data hdr)) (algo @ '':'' @ hex)), s)
       \<and> (\<forall>reader. store_ok X st \<longrightarrow> store_ok X (snd (oci_Import X st reader flt)))"
proof -
  have pre: "strings_HasPrefix (Name hdr) ''blobs/''" and ni: "Name hdr \<noteq> ''index.json''"
    using assms(3) by (simp_all add: strings_HasPrefix_def)
  have blob: "onUntarBlob X s (Data hdr) (Name hdr) (hdr_Size hdr) =
           (Inl (DigestMismatch (digest_FromBytes X (Data hdr)) (algo @ '':'' @ hex)), s)"
    unfolding assms(3) hdr_Size_def
    using assms(4-7) by (rule onUntarBlob_mismatch)
  have step: "oci_scan X flt (Entry hdr # post) d s =
           (Inl (DigestMismatch (digest_FromBytes X (Data hdr)) (algo @ '':'' @ hex)), s)"
    using assms(2) pre ni blob by auto
  have "oci_Import X st (pre @ Entry hdr # post) flt =
           (Inl (DigestMismatch (digest_FromBytes X (Data hdr)) (algo @ '':'' @ hex)), s)"
    by (simp add: oci_Import_def oci_scan_append assms(1) step del: oci_scan.simps)
  then show ?thesis by (simp add: oci_Import_ok)
qed

text \<open>A good blob, then a blob whose bytes do not hash to its name, then the index.\<close>

theorem oci_digest_mismatch_witness:
  "oci_Import sample_libs Map.empty
     [reg ''blobs/sha256/x'' ''x'', reg ''blobs/sha256/x'' ''y'', reg ''index.json'' ''[x]''] [] =
     (Inl (DigestMismatch ''sha256:y'' ''sha256:x''), [''sha256:x'' \<mapsto> ''x''])
   \<and> store_ok sample_libs Map.empty
   \<and> store_ok sample_libs (snd (oci_Import sample_libs Map.empty
        [reg ''blobs/sha256/x'' ''x'', reg ''index.json'' ''[x]''] []))"
proof -
  have e: "store_ok sample_libs Map.empty"
    by (simp add: store_ok_def)
  have av: "algo_Available sample_libs ''sha256''"
    and ne: "digest_FromBytes sample_libs ''y'' \<noteq> ''sha256'' @ '':'' @ ''x''"
    by (simp_all add: sample_libs_def)
  show ?thesis
    using oci_digest_mismatch [where X = sample_libs and flt = "[]" and st = Map.empty
        and pre = "[reg ''blobs/sha256/x'' ''x'']" and d = None and s = "[''sha256:x'' \<mapsto> ''x'']"
        and hdr = "\<lparr>Typeflag = TypeReg, Name = ''blobs/sha256/x'', Data = ''y''\<rparr>"
        and algo = "''sha256''" and hex = "''x''" and post = "[reg ''index.json'' ''[x]'']",
        OF sample_pre_scan] av ne e
    by (simp add: reg_def sample_libs_def del: oci_scan.simps)
qed

subsection \<open>A stream without a metadata record\<close>

text \<open>
  Claim C6, as amended. A stream with no regular-file record named \<^verbatim>\<open>index.json\<close>
  (OCI) or \<^verbatim>\<open>manifest.json\<close> (legacy) never imports; when the scan reaches the end
  of the stream, the import fails with the plain error \<^verbatim>\<open>no descriptor found\<close>,
  respectively \<^verbatim>\<open>no manifest found\<close>, for the filter. That error is made by
  \<^verbatim>\<open>errors.Errorf\<close>: its cause is not the sentinel \<^verbatim>\<open>errdefs.ErrNotFound\<close>.
\<close>

theorem no_manifest_record:
  "(\<not> has_regular ''index.json'' reader \<longrightarrow>
      (\<exists>e s'. oci_Import X s reader flt = (Inl e, s')) \<and>
      (\<forall>d s'. oci_scan X flt reader None s = (Inr d, s') \<longrightarrow>
         oci_Import X s reader flt = (Inl (Errorf (NoDescriptorFound flt)), s')))
   \<and> (\<not> has_regular ''manifest.json'' reader \<longrightarrow>
      (\<exists>e s'. docker_Import X s reader flt = (Inl e, s')) \<and>
      (\<forall>t s'. docker_scan X flt reader tables0 s = (Inr t, s') \<longrightarrow>
         docker_Import X s reader flt = (Inl (Errorf (NoManifestFound flt)), s')))
   \<and> \<not> has_cause ErrNotFound (Errorf (NoDescriptorFound flt))
   \<and> \<not> has_cause ErrNotFound (Errorf (NoManifestFound flt))"
proof -
  have oci: "oci_Import X s reader flt = (Inl (Errorf (NoDescriptorFound flt)), s')"
    if "\<not> has_regular ''index.json'' reader" "oci_scan X flt reader None s = (Inr d, s')" for d s'
    using that oci_scan_no_index [OF that] by (simp add: oci_Import_def)
  have oci_fails: "\<exists>e s'. oci_Import X s reader flt = (Inl e, s')"
    if n: "\<not> has_regular ''index.json'' reader"
  proof (cases "oci_scan X flt reader None s")
    case (Pair r s')
    then show ?thesis
      using oci [OF n, of _ s'] by (cases r) (simp_all add: oci_Import_def)
  qed
  have docker: "docker_Import X s reader flt = (Inl (Errorf (NoManifestFound flt)), s')"
    if "\<not> has_regular ''manifest.json'' reader" "docker_scan X flt reader tables0 s = (Inr t, s')"
    for t s'
    using that docker_scan_no_manifest [OF that]
    by (simp add: docker_Import_def docker_resolve_def tables0_def)
  have docker_fails: "\<exists>e s'. docker_Import X s reader flt = (Inl e, s')"
    if n: "\<not> has_regular ''manifest.json'' reader"
  proof (cases "docker_scan X flt reader tables0 s")
    case (Pair r s')
    then show ?thesis
      using docker [OF n, of _ s'] by (cases r) (simp_all add: docker_Import_def)
  qed
  show ?thesis
    using oci oci_fails docker docker_fails by simp
qed

text \<open>A stream with one unrelated file, and a legacy stream with one layer.\<close>

theorem no_manifest_record_witness:
  "\<not> has_regular ''index.json'' [reg ''oci-layout'' ''y'']
   \<and> oci_Import sample_libs Map.empty [reg ''oci-layout'' ''y''] [] =
       (Inl (Errorf (NoDescriptorFound [])), Map.empty)
   \<and> \<not> has_regular ''manifest.json'' [reg ''1/layer.tar'' ''one'']
   \<and> docker_Import sample_libs Map.empty [reg ''1/layer.tar'' ''one''] [] =
       (Inl (Errorf (NoManifestFound [])), [''sha256:one'' \<mapsto> ''one''])"
proof -
  have a: "\<not> has_regular ''index.json'' [reg ''oci-layout'' ''y'']"
    and b: "\<not> has_regular ''manifest.json'' [reg ''1/layer.tar'' ''one'']"
    by (simp_all add: has_regular_def reg_def)
  show ?thesis
    using no_manifest_record [of "[reg ''oci-layout'' ''y'']" sample_libs Map.empty "[]"]
      no_manifest_record [of "[reg ''1/layer.tar'' ''one'']" sample_libs Map.empty "[]"]
      a b sample_other_scan sample_layer_scan
    by (simp del: oci_scan.simps docker_scan.simps)
qed

text \<open>
  The claim as stated fails: on the empty stream both importers return an error
  that does not have \<^verbatim>\<open>errdefs.ErrNotFound\<close> as its cause.
\<close>

theorem no_manifest_record_counterexample:
  "\<not> has_regular ''index.json'' []
   \<and> oci_Import sample_libs Map.empty [] [] = (Inl (Errorf (NoDescriptorFound [])), Map.empty)
   \<and> \<not> has_cause ErrNotFound (Errorf (NoDescriptorFound []))
   \<and> \<not> has_regular ''manifest.json'' []
   \<and> docker_Import sample_libs Map.empty [] [] = (Inl (Errorf (NoManifestFound [])), Map.empty)
   \<and> \<not> has_cause ErrNotFound (Errorf (NoManifestFound []))"
  by (simp add: has_regular_def oci_Import_def docker_Import_def docker_resolve_def tables0_def)

subsection \<open>OCI records of other names\<close>

text \<open>
  Claim C7, as amended. A regular-file record whose name is not \<^verbatim>\<open>index.json\<close> and
  does not begin with \<^verbatim>\<open>blobs/\<close> is ignored: the import of the stream with the
  record returns the same result and the same store as the import of the stream
  without it. A record whose name begins with \<^verbatim>\<open>blobs/\<close> without having the form
  \<^verbatim>\<open>blobs/<algorithm>/<hex>\<close> is not ignored: when the scan reaches it, the import
  fails with the error \<^verbatim>\<open>unexpected name\<close>, and nothing is ingested for it.
\<close>

theorem oci_other_record:
  assumes "Typeflag hdr = TypeReg \<or> Typeflag hdr = TypeRegA"
      and "Name hdr \<noteq> ''index.json''"
      and "\<not> blob_pattern (Name hdr)"
  shows "(\<not> strings_HasPrefix (Name hdr) ''blobs/'' \<longrightarrow>
            oci_Import X st (pre @ Entry hdr # post) flt = oci_Import X st (pre @ post) flt)
       \<and> (strings_HasPrefix (Name hdr) ''blobs/'' \<longrightarrow>
            (\<forall>d s. oci_scan X flt pre None st = (Inr d, s) \<longrightarrow>
               oci_Import X st (pre @ Entry hdr # post) flt =
                 (Inl (Errorf (UnexpectedName (Name hdr))), s)))"
proof -
  have skip: "oci_scan X flt (Entry hdr # post) d s = oci_scan X flt post d s"
    if "\<not> strings_HasPrefix (Name hdr) ''blobs/''" for d s
    using that assms(1,2) by auto
  have a: "oci_Import X st (pre @ Entry hdr # post) flt = oci_Import X st (pre @ post) flt"
    if "\<not> strings_HasPrefix (Name hdr) ''blobs/''"
    by (simp add: oci_Import_def oci_scan_append skip [OF that] del: oci_scan.simps
        split: prod.splits sum.splits)
  have bad: "oci_scan X flt (Entry hdr # post) d s = (Inl (Errorf (UnexpectedName (Name hdr))), s)"
    if "strings_HasPrefix (Name hdr) ''blobs/''" for d s
    using that assms(1,2) not_pattern_length [OF that assms(3)]
    by (auto simp: onUntarBlob_def)
  have b: "oci_Import X st (pre @ Entry hdr # post) flt =
             (Inl (Errorf (UnexpectedName (Name hdr))), s)"
    if "strings_HasPrefix (Name hdr) ''blobs/''" "oci_scan X flt pre None st = (Inr d, s)" for d s
    by (simp add: oci_Import_def oci_scan_append that(2) bad [OF that(1)] del: oci_scan.simps)
  show ?thesis using a b by blast
qed

text \<open>The file \<^verbatim>\<open>oci-layout\<close> is ignored; the file \<^verbatim>\<open>blobs/foo\<close> ends the import.\<close>

theorem oci_other_record_witness:
  "\<not> blob_pattern ''oci-layout'' \<and> \<not> strings_HasPrefix ''oci-layout'' ''blobs/''
   \<and> oci_Import sample_libs Map.empty [reg ''oci-layout'' ''y'', reg ''index.json'' ''[x]''] [] =
       (Inr descX, Map.empty)
   \<and> \<not> blob_pattern ''blobs/foo'' \<and> strings_HasPrefix ''blobs/foo'' ''blobs/''
   \<and> oci_Import sample_libs Map.empty
        [reg ''oci-layout'' ''y'', reg ''blobs/foo'' ''y'', reg ''index.json'' ''[x]''] [] =
       (Inl (Errorf (UnexpectedName ''blobs/foo'')), Map.empty)"
proof -
  have p: "\<not> blob_pattern ''oci-layout''" "\<not> strings_HasPrefix ''oci-layout'' ''blobs/''"
    "\<not> blob_pattern ''blobs/foo''" "strings_HasPrefix ''blobs/foo'' ''blobs/''"
    by (simp_all add: blob_pattern_def strings_HasPrefix_def)
  show ?thesis
    using oci_other_record [where hdr = "\<lparr>Typeflag = TypeReg, Name = ''oci-layout'', Data = ''y''\<rparr>"
        and pre = "[]" and post = "[reg ''index.json'' ''[x]'']" and X = sample_libs
        and st = Map.empty and flt = "[]"]
      oci_other_record [where hdr = "\<lparr>Typeflag = TypeReg, Name = ''blobs/foo'', Data = ''y''\<rparr>"
        and pre = "[reg ''oci-layout'' ''y'']" and post = "[reg ''index.json'' ''[x]'']"
        and X = sample_libs and st = Map.empty and flt = "[]"]
      p sample_other_scan sample_index_only
    by (simp add: reg_def del: oci_scan.simps)
qed

text \<open>
  The claim as stated fails: \<^verbatim>\<open>blobs/foo\<close> is neither \<^verbatim>\<open>index.json\<close> nor of the form
  \<^verbatim>\<open>blobs/<algorithm>/<hex>\<close>, and the import that succeeds without the record fails
  with it.
\<close>

theorem oci_other_record_counterexample:
  "''blobs/foo'' \<noteq> ''index.json'' \<and> \<not> blob_pattern ''blobs/foo''
   \<and> oci_Import sample_libs Map.empty [reg ''index.json'' ''[x]''] [] = (Inr descX, Map.empty)
   \<and> oci_Import sample_libs Map.empty [reg ''blobs/foo'' ''y'', reg ''index.json'' ''[x]''] [] =
       (Inl (Errorf (UnexpectedName ''blobs/foo'')), Map.empty)"
proof -
  have "oci_Import sample_libs Map.empty [reg ''blobs/foo'' ''y'', reg ''index.json'' ''[x]''] [] =
       (Inl (Errorf (UnexpectedName ''blobs/foo'')), Map.empty)"
    by (simp add: oci_Import_def reg_def TypeReg_def strings_HasPrefix_def onUntarBlob_def)
  then show ?thesis
    using sample_index_only by (simp add: blob_pattern_def)
qed

subsection \<open>Legacy variant: resolving and assembling\<close>

lemma layers_loop_missing:
  "find (\<lambda>f. tbl f = None) fs = Some f \<Longrightarrow>
   layers_loop tbl fs acc = Inl (Errorf (LayerNotFound f))"
  by (induction fs arbitrary: acc) (auto split: if_splits)

lemma layers_loop_resolved:
  "\<forall>f\<in>set fs. tbl f \<noteq> None \<Longrightarrow>
   layers_loop tbl fs acc = Inr (acc @ map (\<lambda>f. the (tbl f)) fs)"
  by (induction fs arbitrary: acc) auto

lemma writeDockerSchema2Manifest_result:
  "writeDockerSchema2Manifest X s mf arch os =
     (Inr \<lparr>MediaType = MediaTypeDockerSchema2Manifest,
           Digest = digest_FromBytes X (marshal_Manifest X mf),
           Size = int (length (marshal_Manifest X mf)), Annotations = Map.empty,
           Platform = (if arch \<noteq> [] \<or> os \<noteq> []
                       then Some \<lparr>Architecture = arch, OS = os, Variant = []\<rparr> else None)\<rparr>,
      s(digest_FromBytes X (marshal_Manifest X mf) \<mapsto> marshal_Manifest X mf))"
  by (simp add: writeDockerSchema2Manifest_def content_WriteBlob_def store_ingest_def Let_def)

lemma docker_filter_parent:
  assumes "filters_Parse flt = Inr f" and "find (\<lambda>m. Parent m \<noteq> []) ms = Some m0"
  shows "docker_filterManifests ms flt = Inl (Errorf (ParentNotSupported (Parent m0)))"
  using assms by (simp add: docker_filterManifests_def docker_match_loop_parent)

lemma find_first_parent:
  assumes "m \<in> set ms" and "Parent m \<noteq> []"
  shows "\<exists>m0. find (\<lambda>m. Parent m \<noteq> []) ms = Some m0 \<and> Parent m0 \<noteq> []"
proof (cases "find (\<lambda>m. Parent m \<noteq> []) ms")
  case None
  then have "\<not> (\<exists>x. x \<in> set ms \<and> Parent x \<noteq> [])"
    by (simp add: find_None_iff)
  then show ?thesis using assms by blast
next
  case (Some m0)
  then show ?thesis by (auto simp: find_Some_iff)
qed

lemma matching_member:
  "m \<in> set (map snd (filter P (enumerate i ms))) \<Longrightarrow> m \<in> set ms"
  by (induction ms arbitrary: i) (auto split: if_splits)

lemma docker_manifest_record_fails:
  assumes "docker_scan X flt pre tables0 st = (Inr t, s)"
      and "Typeflag hdr = TypeReg \<or> Typeflag hdr = TypeRegA"
      and "Name hdr = ''manifest.json''"
      and "onUntarManifestJSON X (Data hdr) flt = Inl e"
  shows "docker_Import X st (pre @ Entry hdr # post) flt = (Inl e, s)"
proof -
  have step: "docker_scan X flt (Entry hdr # post) t s = (Inl e, s)"
    using assms(2-4) by auto
  show ?thesis
    by (simp add: docker_Import_def docker_scan_append assms(1) step del: docker_scan.simps)
qed

lemmas sample_eval =
  reg_def TypeReg_def TypeRegA_def isLayerTar_def isDotJSON_def strings_HasSuffix_def
  onUntarLayerTar_def onUntarDotJSON_def onUntarManifestJSON_def store_ingest_def
  sample_libs_def hdr_Size_def Let_def tables0_def docker_filterManifests_def parse_empty
  select_matched_def filters_Match_def entryA_def entryB_def entryP_def

lemma sample_scan_no_config:
  "docker_scan sample_libs [] [reg ''1/layer.tar'' ''one'', reg ''manifest.json'' ''[A]'']
     tables0 Map.empty =
     (Inr \<lparr>mfst = Some entryA, layers = [''1/layer.tar'' \<mapsto> layer1], configs = Map.empty\<rparr>,
      [''sha256:one'' \<mapsto> ''one''])"
  by (simp add: sample_eval layer1_def)

lemma sample_scan_no_layer:
  "docker_scan sample_libs []
     [reg ''1/layer.tar'' ''one'', reg ''a.json'' ''{arm,linux}'', reg ''manifest.json'' ''[A]'']
     tables0 Map.empty =
     (Inr \<lparr>mfst = Some entryA, layers = [''1/layer.tar'' \<mapsto> layer1],
           configs = [''a.json'' \<mapsto> configA]\<rparr>,
      [''sha256:one'' \<mapsto> ''one'', ''sha256:{arm,linux}'' \<mapsto> ''{arm,linux}''])"
  by (simp add: sample_eval layer1_def configA_def)

lemma sample_scan_complete:
  "docker_scan sample_libs []
     [reg ''1/layer.tar'' ''one'', reg ''a.json'' ''{arm,linux}'', reg ''manifest.json'' ''[A]'',
      reg ''2/layer.tar'' ''two'']
     tables0 Map.empty =
     (Inr \<lparr>mfst = Some entryA,
           layers = [''1/layer.tar'' \<mapsto> layer1, ''2/layer.tar'' \<mapsto> layer2],
           configs = [''a.json'' \<mapsto> configA]\<rparr>,
      [''sha256:one'' \<mapsto> ''one'', ''sha256:{arm,linux}'' \<mapsto> ''{arm,linux}'',
       ''sha256:two'' \<mapsto> ''two''])"
  by (simp add: sample_eval layer1_def layer2_def configA_def)

lemma sample_scan_layer:
  "docker_scan sample_libs flt [reg ''1/layer.tar'' ''one''] tables0 Map.empty =
     (Inr \<lparr>mfst = None, layers = [''1/layer.tar'' \<mapsto> layer1], configs = Map.empty\<rparr>,
      [''sha256:one'' \<mapsto> ''one''])"
  by (simp add: sample_eval layer1_def)

lemma sample_import_arm:
  "docker_Import sample_libs Map.empty
     [reg ''1/layer.tar'' ''one'', reg ''a.json'' ''{arm,linux}'', reg ''manifest.json'' ''[A]'',
      reg ''2/layer.tar'' ''two''] [] =
     (Inr \<lparr>MediaType = MediaTypeDockerSchema2Manifest,
           Digest = ''sha256:sha256:{arm,linux}sha256:onesha256:two'', Size = 38,
           Annotations = Map.empty,
           Platform = Some \<lparr>Architecture = ''arm'', OS = ''linux'', Variant = []\<rparr>\<rparr>,
      [''sha256:one'' \<mapsto> ''one'', ''sha256:{arm,linux}'' \<mapsto> ''{arm,linux}'',
       ''sha256:two'' \<mapsto> ''two'',
       ''sha256:sha256:{arm,linux}sha256:onesha256:two'' \<mapsto>
         ''sha256:{arm,linux}sha256:onesha256:two''])"
  by (simp add: docker_Import_def docker_resolve_def makeDockerSchema2Manifest_def
      writeDockerSchema2Manifest_result sample_eval)

lemma sample_import_bare:
  "docker_Import sample_libs Map.empty
     [reg ''a.json'' ''{}'', reg ''manifest.json'' ''[A]'', reg ''1/layer.tar'' ''one'',
      reg ''2/layer.tar'' ''two''] [] =
     (Inr \<lparr>MediaType = MediaTypeDockerSchema2Manifest,
           Digest = ''sha256:sha256:{}sha256:onesha256:two'', Size = 29,
           Annotations = Map.empty, Platform = None\<rparr>,
      [''sha256:{}'' \<mapsto> ''{}'', ''sha256:one'' \<mapsto> ''one'', ''sha256:two'' \<mapsto> ''two'',
       ''sha256:sha256:{}sha256:onesha256:two'' \<mapsto> ''sha256:{}sha256:onesha256:two''])"
  by (simp add: docker_Import_def docker_resolve_def makeDockerSchema2Manifest_def
      writeDockerSchema2Manifest_result sample_eval)

subsection \<open>Missing references\<close>

text \<open>
  Claim C4. After the scan of the whole stream has left an entry selected: if the
  entry's \<^verbatim>\<open>Config\<close> is not a key of the config table, the import fails with the
  error \<^verbatim>\<open>image config not found\<close> naming that file; otherwise, if some file name
  of the entry's \<^verbatim>\<open>Layers\<close> is not a key of the layer table, the import fails with
  the error \<^verbatim>\<open>layer not found\<close> naming the first such file in layer order. In both
  cases no descriptor is returned and the store is as the scan left it. A missing
  layer is always found: it is never skipped.
\<close>

theorem missing_reference:
  assumes "docker_scan X flt reader tables0 st = (Inr t, s)"
      and "mfst t = Some m"
  shows "(configs t (Config m) = None \<longrightarrow>
            docker_Import X st reader flt =
              (Inl (Errorf (ImageConfigNotFound (Config m) flt)), s))
       \<and> (configs t (Config m) \<noteq> None \<and> find (\<lambda>f. layers t f = None) (Layers m) = Some f \<longrightarrow>
            docker_Import X st reader flt = (Inl (Errorf (LayerNotFound f)), s))
       \<and> ((\<exists>f\<in>set (Layers m). layers t f = None) \<longrightarrow>
            (\<exists>f\<in>set (Layers m). layers t f = None \<and>
               find (\<lambda>f. layers t f = None) (Layers m) = Some f))"
proof -
  have a: "docker_Import X st reader flt = (Inl (Errorf (ImageConfigNotFound (Config m) flt)), s)"
    if "configs t (Config m) = None"
    using assms that by (simp add: docker_Import_def docker_resolve_def)
  have b: "docker_Import X st reader flt = (Inl (Errorf (LayerNotFound f)), s)"
    if "configs t (Config m) \<noteq> None" "find (\<lambda>f. layers t f = None) (Layers m) = Some f"
    using assms that layers_loop_missing [OF that(2), of "[]"]
    by (auto simp: docker_Import_def docker_resolve_def makeDockerSchema2Manifest_def)
  have c: "\<exists>f\<in>set (Layers m). layers t f = None \<and>
               find (\<lambda>f. layers t f = None) (Layers m) = Some f"
    if "\<exists>f\<in>set (Layers m). layers t f = None"
  proof (cases "find (\<lambda>f. layers t f = None) (Layers m)")
    case None
    then have "\<not> (\<exists>f. f \<in> set (Layers m) \<and> layers t f = None)"
      by (simp add: find_None_iff)
    then show ?thesis using that by blast
  next
    case (Some g)
    then show ?thesis by (auto simp: find_Some_iff)
  qed
  show ?thesis using a b c by blast
qed

text \<open>A stream without the config, and a stream without the second layer.\<close>

theorem missing_reference_witness:
  "docker_Import sample_libs Map.empty
     [reg ''1/layer.tar'' ''one'', reg ''manifest.json'' ''[A]''] [] =
     (Inl (Errorf (ImageConfigNotFound ''a.json'' [])), [''sha256:one'' \<mapsto> ''one''])
   \<and> find (\<lambda>f. [''1/layer.tar'' \<mapsto> layer1] f = None) (Layers entryA) = Some ''2/layer.tar''
   \<and> docker_Import sample_libs Map.empty
     [reg ''1/layer.tar'' ''one'', reg ''a.json'' ''{arm,linux}'', reg ''manifest.json'' ''[A]''] [] =
     (Inl (Errorf (LayerNotFound ''2/layer.tar'')),
      [''sha256:one'' \<mapsto> ''one'', ''sha256:{arm,linux}'' \<mapsto> ''{arm,linux}''])"
proof -
  have f: "find (\<lambda>f. [''1/layer.tar'' \<mapsto> layer1] f = None) (Layers entryA) = Some ''2/layer.tar''"
    by (simp add: entryA_def)
  show ?thesis
    using missing_reference [OF sample_scan_no_config, of entryA]
      missing_reference [OF sample_scan_no_layer, of entryA "''2/layer.tar''"] f
    by (simp add: entryA_def)
qed

subsection \<open>The assembled manifest\<close>

text \<open>
  Claim C5. When the selected entry's config and all of its layers resolve, the
  assembled manifest has schema version 2, its config is the descriptor the config
  table holds for the entry's \<^verbatim>\<open>Config\<close>, and its layers are the layer table's
  descriptors for the entry's \<^verbatim>\<open>Layers\<close>, in the same order: the i-th layer is the
  resolution of the i-th file name. This manifest is the one the import writes.
\<close>

theorem assembled_manifest:
  assumes "mfst t = Some m"
      and "configs t (Config m) = Some c"
      and "\<forall>f\<in>set (Layers m). layers t f \<noteq> None"
  shows "makeDockerSchema2Manifest m c (layers t) =
           Inr \<lparr>SchemaVersion = 2, ManifestConfig = desc c,
                ManifestLayers = map (\<lambda>f. the (layers t f)) (Layers m)\<rparr>
       \<and> length (map (\<lambda>f. the (layers t f)) (Layers m)) = length (Layers m)
       \<and> (\<forall>i<length (Layers m).
            layers t (Layers m ! i) = Some (map (\<lambda>f. the (layers t f)) (Layers m) ! i))
       \<and> docker_resolve X flt t s =
           writeDockerSchema2Manifest X s
             \<lparr>SchemaVersion = 2, ManifestConfig = desc c,
              ManifestLayers = map (\<lambda>f. the (layers t f)) (Layers m)\<rparr>
             (img_Architecture (img c)) (img_OS (img c))"
proof -
  have mk: "makeDockerSchema2Manifest m c (layers t) =
           Inr \<lparr>SchemaVersion = 2, ManifestConfig = desc c,
                ManifestLayers = map (\<lambda>f. the (layers t f)) (Layers m)\<rparr>"
    using layers_loop_resolved [OF assms(3), of "[]"]
    by (simp add: makeDockerSchema2Manifest_def)
  have nth: "layers t (Layers m ! i) = Some (map (\<lambda>f. the (layers t f)) (Layers m) ! i)"
    if "i < length (Layers m)" for i
  proof -
    have "Layers m ! i \<in> set (Layers m)"
      using that by simp
    then have "layers t (Layers m ! i) \<noteq> None"
      using assms(3) by blast
    then show ?thesis using that by auto
  qed
  have res: "docker_resolve X flt t s =
           writeDockerSchema2Manifest X s
             \<lparr>SchemaVersion = 2, ManifestConfig = desc c,
              ManifestLayers = map (\<lambda>f. the (layers t f)) (Layers m)\<rparr>
             (img_Architecture (img c)) (img_OS (img c))"
    using assms(1,2) mk by (simp add: docker_resolve_def)
  show ?thesis using mk nth res by simp
qed

text \<open>The sample entry with both of its layers in the table.\<close>

theorem assembled_manifest_witness:
  "makeDockerSchema2Manifest entryA configA
     [''1/layer.tar'' \<mapsto> layer1, ''2/layer.tar'' \<mapsto> layer2] =
     Inr \<lparr>SchemaVersion = 2, ManifestConfig = desc configA, ManifestLayers = [layer1, layer2]\<rparr>
   \<and> Layers entryA = [''1/layer.tar'', ''2/layer.tar'']"
proof -
  have r: "\<forall>f\<in>set (Layers entryA).
      layers \<lparr>mfst = Some entryA,
           layers = [''1/layer.tar'' \<mapsto> layer1, ''2/layer.tar'' \<mapsto> layer2],
           configs = [''a.json'' \<mapsto> configA]\<rparr> f \<noteq> None"
    by (simp add: entryA_def)
  show ?thesis
    using assembled_manifest [where t = "\<lparr>mfst = Some entryA,
           layers = [''1/layer.tar'' \<mapsto> layer1, ''2/layer.tar'' \<mapsto> layer2],
           configs = [''a.json'' \<mapsto> configA]\<rparr>" and m = entryA and c = configA,
        OF _ _ r]
    by (simp add: entryA_def)
qed

subsection \<open>The platform of the output descriptor\<close>

text \<open>
  Claim C8. The descriptor a legacy import returns has a platform if and only if
  the architecture or the OS of the decoded config of the selected entry is a
  non-empty string; when both are empty the platform is absent, and when it is
  present it holds exactly that architecture and that OS.
\<close>

theorem output_platform:
  assumes "docker_Import X st reader flt = (Inr d, s')"
  shows "\<exists>t s m c. docker_scan X flt reader tables0 st = (Inr t, s)
           \<and> mfst t = Some m \<and> configs t (Config m) = Some c
           \<and> (Platform d \<noteq> None \<longleftrightarrow> img_Architecture (img c) \<noteq> [] \<or> img_OS (img c) \<noteq> [])
           \<and> (img_Architecture (img c) = [] \<and> img_OS (img c) = [] \<longrightarrow> Platform d = None)
           \<and> (img_Architecture (img c) \<noteq> [] \<or> img_OS (img c) \<noteq> [] \<longrightarrow>
                Platform d = Some \<lparr>Architecture = img_Architecture (img c),
                                   OS = img_OS (img c), Variant = []\<rparr>)"
proof -
  obtain t s where sc: "docker_scan X flt reader tables0 st = (Inr t, s)"
    and r: "docker_resolve X flt t s = (Inr d, s')"
    using assms by (auto simp: docker_Import_def split: prod.splits sum.splits)
  obtain m where m: "mfst t = Some m"
    using r by (cases "mfst t") (simp_all add: docker_resolve_def)
  obtain c where c: "configs t (Config m) = Some c"
    using r m by (cases "configs t (Config m)") (simp_all add: docker_resolve_def)
  obtain mf where w: "writeDockerSchema2Manifest X s mf
      (img_Architecture (img c)) (img_OS (img c)) = (Inr d, s')"
    using r m c
    by (cases "makeDockerSchema2Manifest m c (layers t)") (simp_all add: docker_resolve_def)
  have p: "Platform d =
      (if img_Architecture (img c) \<noteq> [] \<or> img_OS (img c) \<noteq> []
       then Some \<lparr>Architecture = img_Architecture (img c), OS = img_OS (img c), Variant = []\<rparr>
       else None)"
    using w unfolding writeDockerSchema2Manifest_result by auto
  show ?thesis
    using sc m c p by auto
qed

text \<open>An import with the config \<^verbatim>\<open>arm\<close>, \<^verbatim>\<open>linux\<close>, and one with an empty config.\<close>

theorem output_platform_witness:
  "map_sum id Platform (fst (docker_Import sample_libs Map.empty
        [reg ''1/layer.tar'' ''one'', reg ''a.json'' ''{arm,linux}'', reg ''manifest.json'' ''[A]'',
         reg ''2/layer.tar'' ''two''] [])) =
      Inr (Some \<lparr>Architecture = ''arm'', OS = ''linux'', Variant = []\<rparr>)
   \<and> map_sum id Platform (fst (docker_Import sample_libs Map.empty
        [reg ''a.json'' ''{}'', reg ''manifest.json'' ''[A]'', reg ''1/layer.tar'' ''one'',
         reg ''2/layer.tar'' ''two''] [])) = Inr None
   \<and> (\<exists>t s m c.
      docker_scan sample_libs []
        [reg ''1/layer.tar'' ''one'', reg ''a.json'' ''{arm,linux}'', reg ''manifest.json'' ''[A]'',
         reg ''2/layer.tar'' ''two''] tables0 Map.empty = (Inr t, s)
      \<and> mfst t = Some m \<and> configs t (Config m) = Some c
      \<and> img_Architecture (img c) = ''arm'' \<and> img_OS (img c) = ''linux'')
   \<and> (\<exists>t s m c.
      docker_scan sample_libs []
        [reg ''a.json'' ''{}'', reg ''manifest.json'' ''[A]'', reg ''1/layer.tar'' ''one'',
         reg ''2/layer.tar'' ''two''] tables0 Map.empty = (Inr t, s)
      \<and> mfst t = Some m \<and> configs t (Config m) = Some c
      \<and> img_Architecture (img c) = [] \<and> img_OS (img c) = [])"
proof -
  have a: "\<exists>t s m c.
      docker_scan sample_libs []
        [reg ''1/layer.tar'' ''one'', reg ''a.json'' ''{arm,linux}'', reg ''manifest.json'' ''[A]'',
         reg ''2/layer.tar'' ''two''] tables0 Map.empty = (Inr t, s)
      \<and> mfst t = Some m \<and> configs t (Config m) = Some c
      \<and> img_Architecture (img c) = ''arm'' \<and> img_OS (img c) = ''linux''"
    using output_platform [OF sample_import_arm]
    by (simp del: docker_scan.simps) (metis (no_types, lifting))
  have b: "\<exists>t s m c.
      docker_scan sample_libs []
        [reg ''a.json'' ''{}'', reg ''manifest.json'' ''[A]'', reg ''1/layer.tar'' ''one'',
         reg ''2/layer.tar'' ''two''] tables0 Map.empty = (Inr t, s)
      \<and> mfst t = Some m \<and> configs t (Config m) = Some c
      \<and> img_Architecture (img c) = [] \<and> img_OS (img c) = []"
    using output_platform [OF sample_import_bare]
    by (simp del: docker_scan.simps)
  show ?thesis
    using a b by (simp add: sample_import_arm sample_import_bare del: docker_scan.simps)
qed

subsection \<open>Entries with a parent\<close>

text \<open>
  Claim C9. When the scan reaches the record \<^verbatim>\<open>manifest.json\<close> and the entry that
  the filter selects, being the only one that matches, has a non-empty \<^verbatim>\<open>Parent\<close>,
  the import fails with the error \<^verbatim>\<open>manifest.Parent is not supported\<close> and returns
  no descriptor.
\<close>

theorem parent_unsupported:
  assumes "docker_scan X flt pre tables0 st = (Inr t, s)"
      and "Typeflag hdr = TypeReg \<or> Typeflag hdr = TypeRegA"
      and "Name hdr = ''manifest.json''"
      and "unmarshal_manifests X (Data hdr) = Some ms"
      and "filters_Parse flt = Inr f"
      and "docker_matching f ms = [m]"
      and "Parent m \<noteq> []"
  shows "\<exists>p. p \<noteq> [] \<and>
           docker_Import X st (pre @ Entry hdr # post) flt =
             (Inl (Errorf (ParentNotSupported p)), s)"
proof -
  have "m \<in> set (docker_matching f ms)"
    using assms(6) by simp
  then have "m \<in> set ms"
    unfolding docker_matching_def by (rule matching_member)
  then obtain m0 where m0: "find (\<lambda>m. Parent m \<noteq> []) ms = Some m0" "Parent m0 \<noteq> []"
    using find_first_parent assms(7) by blast
  have "onUntarManifestJSON X (Data hdr) flt = Inl (Errorf (ParentNotSupported (Parent m0)))"
    using assms(4) docker_filter_parent [OF assms(5) m0(1)]
    by (simp add: onUntarManifestJSON_def)
  then have "docker_Import X st (pre @ Entry hdr # post) flt =
      (Inl (Errorf (ParentNotSupported (Parent m0))), s)"
    by (rule docker_manifest_record_fails [OF assms(1-3)])
  then show ?thesis using m0(2) by blast
qed

text \<open>The filter \<^verbatim>\<open>index==1\<close> selects the sample entry that has a parent.\<close>

theorem parent_unsupported_witness:
  "docker_matching [([''index''], ''1'')] [entryA, entryP] = [entryP] \<and> Parent entryP = ''a''
   \<and> (\<exists>p. p \<noteq> [] \<and>
        docker_Import sample_libs Map.empty
          [reg ''1/layer.tar'' ''one'', reg ''manifest.json'' ''[A,P]'', reg ''p.json'' ''{}'']
          ''index==1'' =
        (Inl (Errorf (ParentNotSupported p)), [''sha256:one'' \<mapsto> ''one'']))"
proof -
  have dm: "docker_matching [([''index''], ''1'')] [entryA, entryP] = [entryP]"
    by (simp add: docker_matching_def filters_Match_def selector_Match_def docker_adaptImage_def
        Itoa_0 Itoa_1)
  have um: "unmarshal_manifests sample_libs ''[A,P]'' = Some [entryA, entryP]"
    by (simp add: sample_libs_def)
  have pp: "Parent entryP = ''a''"
    by (simp add: entryP_def)
  show ?thesis
    using parent_unsupported [where X = sample_libs and st = Map.empty
        and pre = "[reg ''1/layer.tar'' ''one'']"
        and hdr = "\<lparr>Typeflag = TypeReg, Name = ''manifest.json'', Data = ''[A,P]''\<rparr>"
        and post = "[reg ''p.json'' ''{}'']" and m = entryP,
        OF sample_scan_layer _ _ _ parse_index1] dm um pp
    by (simp add: reg_def del: docker_scan.simps)
qed

text \<open>
  Claim C10. The check for a \<^verbatim>\<open>Parent\<close> is made on the entries of the list whether
  they match or not: when the scan reaches the record \<^verbatim>\<open>manifest.json\<close> and any
  entry of its list has a non-empty \<^verbatim>\<open>Parent\<close>, selection and with it the whole
  import fail with the error naming the \<^verbatim>\<open>Parent\<close> of the first such entry in list
  order, also when the filter matches only another entry, one without a parent.
\<close>

theorem parent_check_every_entry:
  assumes "docker_scan X flt pre tables0 st = (Inr t, s)"
      and "Typeflag hdr = TypeReg \<or> Typeflag hdr = TypeRegA"
      and "Name hdr = ''manifest.json''"
      and "unmarshal_manifests X (Data hdr) = Some ms"
      and "filters_Parse flt = Inr f"
      and "m1 \<in> set ms" and "Parent m1 \<noteq> []"
  shows "\<exists>m0. find (\<lambda>m. Parent m \<noteq> []) ms = Some m0
           \<and> docker_filterManifests ms flt = Inl (Errorf (ParentNotSupported (Parent m0)))
           \<and> docker_Import X st (pre @ Entry hdr # post) flt =
               (Inl (Errorf (ParentNotSupported (Parent m0))), s)"
proof -
  obtain m0 where m0: "find (\<lambda>m. Parent m \<noteq> []) ms = Some m0"
    using find_first_parent [OF assms(6,7)] by blast
  have flt: "docker_filterManifests ms flt = Inl (Errorf (ParentNotSupported (Parent m0)))"
    by (rule docker_filter_parent [OF assms(5) m0])
  have "onUntarManifestJSON X (Data hdr) flt = Inl (Errorf (ParentNotSupported (Parent m0)))"
    using assms(4) flt by (simp add: onUntarManifestJSON_def)
  then have "docker_Import X st (pre @ Entry hdr # post) flt =
      (Inl (Errorf (ParentNotSupported (Parent m0))), s)"
    by (rule docker_manifest_record_fails [OF assms(1-3)])
  then show ?thesis using m0 flt by blast
qed

text \<open>
  The filter \<^verbatim>\<open>index==0\<close> matches only the first sample entry, which has no parent;
  the import fails on the parent of the second.
\<close>

theorem parent_check_every_entry_witness:
  "docker_matching [([''index''], ''0'')] [entryA, entryP] = [entryA] \<and> Parent entryA = []
   \<and> find (\<lambda>m. Parent m \<noteq> []) [entryA, entryP] = Some entryP
   \<and> docker_Import sample_libs Map.empty
        [reg ''1/layer.tar'' ''one'', reg ''manifest.json'' ''[A,P]'', reg ''a.json'' ''{}'']
        ''index==0'' =
      (Inl (Errorf (ParentNotSupported ''a'')), [''sha256:one'' \<mapsto> ''one''])"
proof -
  have dm: "docker_matching [([''index''], ''0'')] [entryA, entryP] = [entryA]"
    by (simp add: docker_matching_def filters_Match_def selector_Match_def docker_adaptImage_def
        Itoa_0 Itoa_1)
  have um: "unmarshal_manifests sample_libs ''[A,P]'' = Some [entryA, entryP]"
    by (simp add: sample_libs_def)
  have pp: "Parent entryP = ''a''" "Parent entryA = []"
    "find (\<lambda>m. Parent m \<noteq> []) [entryA, entryP] = Some entryP"
    by (simp_all add: entryP_def entryA_def)
  show ?thesis
    using parent_check_every_entry [where X = sample_libs and st = Map.empty
        and pre = "[reg ''1/layer.tar'' ''one'']"
        and hdr = "\<lparr>Typeflag = TypeReg, Name = ''manifest.json'', Data = ''[A,P]''\<rparr>"
        and post = "[reg ''a.json'' ''{}'']" and ms = "[entryA, entryP]" and ?m1.0 = entryP,
        OF sample_scan_layer _ _ _ parse_index0] dm um pp
    by (simp add: reg_def del: docker_scan.simps)
qed

end
